theory Spec2Isabelle
  imports Complex_Main
begin

section \<open>The embedder facade of \<open>bge_embed.py\<close>\<close>

text \<open>
  The module wraps an external sentence-embedding model: a class \<open>BGEEmbedder\<close> with
  a constructor and two methods, a module-level variable \<open>_model\<close> holding a lazily
  built instance, and three module-level functions. Everything the module does
  besides returning a value is written out below: what it prints, what it raises,
  the calls it makes to the external library and the module-level variable it assigns.
\<close>

subsection \<open>Exceptions, values and the external library\<close>

text \<open>
  A raised Python exception. \<open>is_Exception e\<close> is \<open>isinstance(e, Exception)\<close>, which is
  what an \<open>except Exception\<close> clause tests: it is false for \<open>KeyboardInterrupt\<close>,
  \<open>SystemExit\<close> and \<open>GeneratorExit\<close>, which derive from \<open>BaseException\<close> only.
  \<open>exn_class e\<close> is \<open>type(e).__name__\<close> and \<open>exn_str e\<close> is \<open>str(e)\<close>.
\<close>

datatype exn = Exn (is_Exception: bool) (exn_class: string) (exn_str: string)

text \<open>
  The argument of an embedding call: an instance of \<open>str\<close>, or any other object.
  \<open>isinstance(text, str)\<close> holds exactly for \<open>PyStr\<close>.
\<close>

datatype 'o pyval = PyStr string | PyObj 'o

text \<open>An embedding vector after \<open>tolist()\<close>: a list of floats. No arithmetic is done on them.\<close>

type_synonym vector = "real list"

text \<open>
  What the module takes from outside. \<open>SentenceTransformer name\<close> loads a model and
  \<open>encode h texts\<close> runs it; both may raise and both may read and change the state
  \<open>'w\<close> of the world outside the module (files, network, device memory), so a call
  that failed may succeed later. \<open>py_str\<close> is Python's \<open>str()\<close> on an object that is not
  a string; it runs the object's \<open>__str__\<close>, which may raise.
\<close>

record ('w, 'h, 'o) ext =
  SentenceTransformer :: "string \<Rightarrow> 'w \<Rightarrow> (exn + 'h) \<times> 'w"
  encode :: "'h \<Rightarrow> string list \<Rightarrow> 'w \<Rightarrow> (exn + vector list) \<times> 'w"
  py_str :: "'o \<Rightarrow> exn + string"

subsection \<open>Program state\<close>

text \<open>
  An instance of \<open>BGEEmbedder\<close>: its identity (every call of the class makes a new
  object) and its attribute \<open>self.model\<close>.
\<close>

record 'h BGEEmbedder =
  oid :: nat
  model :: 'h

text \<open>
  The state of the process as far as the module sees it: the outside world, the lines
  printed so far, the next fresh object identity and the module-level variable
  \<open>_model\<close> (\<open>global_model\<close>, \<open>None\<close> at import). Three counters record the calls made to
  the external library: \<open>ctor_calls\<close> counts the calls of \<open>SentenceTransformer\<close>,
  \<open>constructed\<close> those of them that returned a model, \<open>encode_calls\<close> the calls of
  \<open>encode\<close>. The program never reads the counters.
\<close>

record ('w, 'h) pstate =
  world :: 'w
  stdout :: "string list"
  next_oid :: nat
  global_model :: "'h BGEEmbedder option"
  ctor_calls :: nat
  constructed :: nat
  encode_calls :: nat

definition init_state :: "'w \<Rightarrow> ('w, 'h) pstate" where
  "init_state w =
     \<lparr>world = w, stdout = [], next_oid = 0, global_model = None,
      ctor_calls = 0, constructed = 0, encode_calls = 0\<rparr>"

text \<open>
  \<open>print(line)\<close> appends a line to the standard output. Writing to it, formatting an
  f-string and taking \<open>str(e)\<close> of an exception are taken to succeed.
\<close>

definition print :: "string \<Rightarrow> ('w, 'h) pstate \<Rightarrow> ('w, 'h) pstate" where
  "print line s = s\<lparr>stdout := stdout s @ [line]\<rparr>"

text \<open>
  The handler shared by the three methods:
  \<^verbatim>\<open>except Exception as e: print(f"<prefix>{str(e)}"); raise\<close>.
  An exception that is not an instance of \<open>Exception\<close> does not enter the clause and
  propagates with nothing printed.
\<close>

definition log_and_reraise :: "string \<Rightarrow> exn \<Rightarrow> ('w, 'h) pstate \<Rightarrow> (exn + 'a) \<times> ('w, 'h) pstate" where
  "log_and_reraise prefix e s =
     (if is_Exception e then (Inl e, print (prefix @ exn_str e) s) else (Inl e, s))"

subsection \<open>The class \<open>BGEEmbedder\<close>\<close>

text \<open>
  \<open>BGEEmbedder(model_name)\<close>: a new object is allocated and \<open>__init__\<close> runs on it. When
  \<open>__init__\<close> raises, the call of the class raises and the object is never handed out.
\<close>

definition BGEEmbedder_init ::
  "('w, 'h, 'o) ext \<Rightarrow> string \<Rightarrow> ('w, 'h) pstate \<Rightarrow> (exn + 'h BGEEmbedder) \<times> ('w, 'h) pstate" where
  "BGEEmbedder_init env model_name s0 =
     (let self_oid = next_oid s0;
          s1 = print (''Initializing BGE model: '' @ model_name) (s0\<lparr>next_oid := Suc self_oid\<rparr>);
          (r, w') = SentenceTransformer env model_name (world s1);
          s2 = s1\<lparr>world := w', ctor_calls := Suc (ctor_calls s1)\<rparr>
      in case r of
           Inr h \<Rightarrow>
             (Inr \<lparr>oid = self_oid, model = h\<rparr>,
              print ''Model initialized successfully'' (s2\<lparr>constructed := Suc (constructed s2)\<rparr>))
         | Inl e \<Rightarrow> log_and_reraise ''Error initializing model: '' e s2)"

text \<open>Python's \<open>str(t)\<close>: a string is returned as it is, another object through \<open>__str__\<close>.\<close>

definition str_py :: "('w, 'h, 'o) ext \<Rightarrow> 'o pyval \<Rightarrow> exn + string" where
  "str_py env t = (case t of PyStr x \<Rightarrow> Inr x | PyObj x \<Rightarrow> py_str env x)"

text \<open>\<open>[str(t) for t in texts]\<close>: left to right, stopping at the first element that raises.\<close>

fun str_all :: "('w, 'h, 'o) ext \<Rightarrow> 'o pyval list \<Rightarrow> exn + string list" where
  "str_all env [] = Inr []"
| "str_all env (t # ts) =
     (case str_py env t of
        Inl e \<Rightarrow> Inl e
      | Inr x \<Rightarrow> (case str_all env ts of Inl e \<Rightarrow> Inl e | Inr xs \<Rightarrow> Inr (x # xs)))"

definition tolist :: "vector \<Rightarrow> vector" where
  "tolist emb = emb"

text \<open>Indexing the result of \<open>encode\<close> at 0 raises \<open>IndexError\<close> when the result is empty.\<close>

definition IndexError :: exn where
  "IndexError = Exn True ''IndexError'' ''index 0 is out of bounds for axis 0 with size 0''"

definition BGEEmbedder_embed_text ::
  "('w, 'h, 'o) ext \<Rightarrow> 'h BGEEmbedder \<Rightarrow> 'o pyval \<Rightarrow> ('w, 'h) pstate \<Rightarrow> (exn + vector) \<times> ('w, 'h) pstate" where
  "BGEEmbedder_embed_text env self text s =
     (case (case text of PyStr x \<Rightarrow> Inr x | PyObj x \<Rightarrow> py_str env x) of
        Inl e \<Rightarrow> log_and_reraise ''Error generating embedding: '' e s
      | Inr text' \<Rightarrow>
          (let (r, w') = encode env (model self) [text'] (world s);
               s1 = s\<lparr>world := w', encode_calls := Suc (encode_calls s)\<rparr>
           in case r of
                Inl e \<Rightarrow> log_and_reraise ''Error generating embedding: '' e s1
              | Inr [] \<Rightarrow> log_and_reraise ''Error generating embedding: '' IndexError s1
              | Inr (embedding # _) \<Rightarrow> (Inr (tolist embedding), s1)))"

definition BGEEmbedder_embed_batch ::
  "('w, 'h, 'o) ext \<Rightarrow> 'h BGEEmbedder \<Rightarrow> 'o pyval list \<Rightarrow> ('w, 'h) pstate \<Rightarrow> (exn + vector list) \<times> ('w, 'h) pstate" where
  "BGEEmbedder_embed_batch env self texts s =
     (case str_all env texts of
        Inl e \<Rightarrow> log_and_reraise ''Error generating batch embeddings: '' e s
      | Inr texts' \<Rightarrow>
          (let (r, w') = encode env (model self) texts' (world s);
               s1 = s\<lparr>world := w', encode_calls := Suc (encode_calls s)\<rparr>
           in case r of
                Inl e \<Rightarrow> log_and_reraise ''Error generating batch embeddings: '' e s1
              | Inr embeddings \<Rightarrow> (Inr (map tolist embeddings), s1)))"

subsection \<open>The module-level accessor and convenience functions\<close>

definition get_model ::
  "('w, 'h, 'o) ext \<Rightarrow> ('w, 'h) pstate \<Rightarrow> (exn + 'h BGEEmbedder) \<times> ('w, 'h) pstate" where
  "get_model env s =
     (case global_model s of
        None \<Rightarrow>
          (case BGEEmbedder_init env ''BAAI/bge-m3'' s of
             (Inl e, s') \<Rightarrow> (Inl e, s')
           | (Inr m, s') \<Rightarrow> (Inr m, s'\<lparr>global_model := Some m\<rparr>))
      | Some m \<Rightarrow> (Inr m, s))"

definition embed_text ::
  "('w, 'h, 'o) ext \<Rightarrow> 'o pyval \<Rightarrow> ('w, 'h) pstate \<Rightarrow> (exn + vector) \<times> ('w, 'h) pstate" where
  "embed_text env text s =
     (case get_model env s of
        (Inl e, s') \<Rightarrow> (Inl e, s')
      | (Inr m, s') \<Rightarrow> BGEEmbedder_embed_text env m text s')"

definition embed_text_batch ::
  "('w, 'h, 'o) ext \<Rightarrow> 'o pyval list \<Rightarrow> ('w, 'h) pstate \<Rightarrow> (exn + vector list) \<times> ('w, 'h) pstate" where
  "embed_text_batch env texts s =
     (case get_model env s of
        (Inl e, s') \<Rightarrow> (Inl e, s')
      | (Inr m, s') \<Rightarrow> BGEEmbedder_embed_batch env m texts s')"

subsection \<open>Sequences of calls\<close>

text \<open>
  A caller of the module calls its three functions, any number of times and in any
  order. \<open>run\<close> makes the calls one after the other; a call that raises leaves its
  exception in the list of outcomes and the next call starts from the state it left.
\<close>

datatype 'o op = GetModel | EmbedText "'o pyval" | EmbedTextBatch "'o pyval list"

datatype 'h retval = RModel "'h BGEEmbedder" | RVec vector | RVecs "vector list"

definition returning :: "('a \<Rightarrow> 'b) \<Rightarrow> (exn + 'a) \<times> 's \<Rightarrow> (exn + 'b) \<times> 's" where
  "returning f r = (case r of (Inl e, s) \<Rightarrow> (Inl e, s) | (Inr x, s) \<Rightarrow> (Inr (f x), s))"

fun exec_op ::
  "('w, 'h, 'o) ext \<Rightarrow> 'o op \<Rightarrow> ('w, 'h) pstate \<Rightarrow> (exn + 'h retval) \<times> ('w, 'h) pstate" where
  "exec_op env GetModel s = returning RModel (get_model env s)"
| "exec_op env (EmbedText text) s = returning RVec (embed_text env text s)"
| "exec_op env (EmbedTextBatch texts) s = returning RVecs (embed_text_batch env texts s)"

fun run ::
  "('w, 'h, 'o) ext \<Rightarrow> 'o op list \<Rightarrow> ('w, 'h) pstate \<Rightarrow> (exn + 'h retval) list \<times> ('w, 'h) pstate" where
  "run env [] s = ([], s)"
| "run env (c # cs) s =
     (let (r, s') = exec_op env c s; (rs, s'') = run env cs s' in (r # rs, s''))"

text \<open>
  The lines a call printed, and those of them that report an error: the three handlers
  print lines starting with \<open>Error\<close>, the two progress messages of the constructor do not.
\<close>

definition printed_since :: "('w, 'h) pstate \<Rightarrow> ('w, 'h) pstate \<Rightarrow> string list" where
  "printed_since s s' = drop (length (stdout s)) (stdout s')"

definition is_error_line :: "string \<Rightarrow> bool" where
  "is_error_line l = (take 6 l = ''Error '')"

definition error_lines_since :: "('w, 'h) pstate \<Rightarrow> ('w, 'h) pstate \<Rightarrow> string list" where
  "error_lines_since s s' = filter is_error_line (printed_since s s')"

text \<open>
  The exceptions that can arise inside the \<open>try\<close> blocks of the class: those the
  external library or a \<open>__str__\<close> raises, and the \<open>IndexError\<close> of indexing an empty result.
\<close>

definition raised_inside :: "('w, 'h, 'o) ext \<Rightarrow> exn \<Rightarrow> bool" where
  "raised_inside env e =
     ((\<exists>name w. fst (SentenceTransformer env name w) = Inl e)
      \<or> (\<exists>h texts w. fst (encode env h texts w) = Inl e)
      \<or> (\<exists>x. py_str env x = Inl e)
      \<or> e = IndexError)"

subsection \<open>A concrete external library\<close>

text \<open>
  An instance of the external interface, used to run the module on concrete inputs.
  The world is the number of load attempts made so far: the first load fails with an
  \<open>OSError\<close> (say, the weights are still missing), later loads succeed and hand out the
  load number as the model. \<open>encode\<close> maps every text to the one-element vector holding
  its length, except that a batch containing \<open>boom\<close> exhausts the device memory and a
  batch containing \<open>^C\<close> is interrupted from the keyboard. The objects that are not
  strings are \<open>None\<close>, \<open>True\<close> and \<open>False\<close>, with Python's \<open>str()\<close> of them.
\<close>

datatype builtin = PyNone | PyBool bool

fun builtin_str :: "builtin \<Rightarrow> string" where
  "builtin_str PyNone = ''None''"
| "builtin_str (PyBool True) = ''True''"
| "builtin_str (PyBool False) = ''False''"

definition OSError_missing :: exn where
  "OSError_missing = Exn True ''OSError'' ''BAAI/bge-m3 does not appear to have model weights''"

definition RuntimeError_oom :: exn where
  "RuntimeError_oom = Exn True ''RuntimeError'' ''CUDA out of memory''"

definition KeyboardInterrupt :: exn where
  "KeyboardInterrupt = Exn False ''KeyboardInterrupt'' []"

definition demo_SentenceTransformer :: "string \<Rightarrow> nat \<Rightarrow> (exn + nat) \<times> nat" where
  "demo_SentenceTransformer name w =
     (if w = 0 then (Inl OSError_missing, Suc w) else (Inr w, Suc w))"

definition demo_encode :: "nat \<Rightarrow> string list \<Rightarrow> nat \<Rightarrow> (exn + vector list) \<times> nat" where
  "demo_encode h texts w =
     (if ''boom'' \<in> set texts then (Inl RuntimeError_oom, w)
      else if ''^C'' \<in> set texts then (Inl KeyboardInterrupt, w)
      else (Inr (map (\<lambda>t. [real (length t)]) texts), w))"

definition demo_ext :: "(nat, nat, builtin) ext" where
  "demo_ext =
     \<lparr>SentenceTransformer = demo_SentenceTransformer,
      encode = demo_encode,
      py_str = (\<lambda>x. Inr (builtin_str x))\<rparr>"

text \<open>An instance built by hand, for calling the methods directly.\<close>

definition demo_self :: "nat BGEEmbedder" where
  "demo_self = \<lparr>oid = 0, model = 1\<rparr>"

text \<open>The same library with a load that the user interrupts from the keyboard.\<close>

definition interrupted_ext :: "(nat, nat, builtin) ext" where
  "interrupted_ext = demo_ext\<lparr>SentenceTransformer := (\<lambda>name w. (Inl KeyboardInterrupt, w))\<rparr>"

text \<open>The same library with an \<open>encode\<close> that never raises: every text goes to its length.\<close>

definition pointwise_ext :: "(nat, nat, builtin) ext" where
  "pointwise_ext = demo_ext\<lparr>encode := (\<lambda>h texts w. (Inr (map (\<lambda>t. [real (length t)]) texts), w))\<rparr>"

text \<open>
  Two more variants, for the failures inside the facade itself: a library whose
  objects all have a \<open>__str__\<close> that raises, and one whose \<open>encode\<close> returns no vector.
\<close>

definition TypeError_str :: exn where
  "TypeError_str = Exn True ''TypeError'' ''__str__ returned non-string (type int)''"

definition unprintable_ext :: "(nat, nat, builtin) ext" where
  "unprintable_ext = demo_ext\<lparr>py_str := (\<lambda>x. Inl TypeError_str)\<rparr>"

definition hollow_ext :: "(nat, nat, builtin) ext" where
  "hollow_ext = demo_ext\<lparr>encode := (\<lambda>h texts w. (Inr [], w))\<rparr>"

subsection \<open>The invariant of the lazy singleton\<close>

text \<open>
  A model has been built exactly when \<open>_model\<close> is set, and then exactly one.
\<close>

definition singleton_inv :: "('w, 'h) pstate \<Rightarrow> bool" where
  "singleton_inv s = (constructed s = (if global_model s = None then 0 else 1))"

subsection \<open>What a handled failure looks like\<close>

text \<open>
  The prefixes of the three error lines, and the record a failed call leaves: the
  exception \<open>e\<close> that reaches the caller arose inside a \<open>try\<close> block; between the states
  \<open>s\<close> and \<open>s'\<close> exactly one error line was printed, carrying \<open>str(e)\<close>, when \<open>e\<close> is an
  instance of \<open>Exception\<close> and none otherwise; and the loader and \<open>encode\<close> were each
  called at most once.
\<close>

definition error_prefixes :: "string set" where
  "error_prefixes =
     {''Error initializing model: '', ''Error generating embedding: '',
      ''Error generating batch embeddings: ''}"

definition logged_by_handler :: "('w, 'h) pstate \<Rightarrow> ('w, 'h) pstate \<Rightarrow> exn \<Rightarrow> bool" where
  "logged_by_handler s s' e =
     (if is_Exception e then (\<exists>p \<in> error_prefixes. error_lines_since s s' = [p @ exn_str e])
      else error_lines_since s s' = [])"

definition handled_once ::
  "('w, 'h, 'o) ext \<Rightarrow> ('w, 'h) pstate \<Rightarrow> ('w, 'h) pstate \<Rightarrow> exn \<Rightarrow> bool" where
  "handled_once env s s' e =
     (raised_inside env e \<and> logged_by_handler s s' e
      \<and> ctor_calls s' \<le> Suc (ctor_calls s) \<and> encode_calls s' \<le> Suc (encode_calls s))"

section \<open>Basic facts\<close>

lemma demo_simps:
  "SentenceTransformer demo_ext = demo_SentenceTransformer"
  "encode demo_ext = demo_encode"
  "py_str demo_ext = (\<lambda>x. Inr (builtin_str x))"
  by (simp_all add: demo_ext_def)

lemmas demo_run_defs =
  demo_simps demo_SentenceTransformer_def demo_encode_def init_state_def
  get_model_def embed_text_def embed_text_batch_def returning_def
  BGEEmbedder_init_def BGEEmbedder_embed_text_def BGEEmbedder_embed_batch_def str_py_def
  log_and_reraise_def print_def tolist_def Let_def
  OSError_missing_def RuntimeError_oom_def KeyboardInterrupt_def demo_self_def

lemmas fake_ext_defs = unprintable_ext_def hollow_ext_def TypeError_str_def IndexError_def

subsection \<open>The accessor, case by case\<close>

lemma get_model_Some: "global_model s = Some m \<Longrightarrow> get_model env s = (Inr m, s)"
  by (simp add: get_model_def)

lemma get_model_None_Inl:
  "global_model s = None \<Longrightarrow> SentenceTransformer env ''BAAI/bge-m3'' (world s) = (Inl e, w') \<Longrightarrow>
   get_model env s =
     (Inl e, s\<lparr>next_oid := Suc (next_oid s), world := w', ctor_calls := Suc (ctor_calls s),
        stdout := stdout s @ [''Initializing BGE model: BAAI/bge-m3'']
                  @ (if is_Exception e then [''Error initializing model: '' @ exn_str e] else [])\<rparr>)"
  by (simp add: get_model_def BGEEmbedder_init_def print_def log_and_reraise_def Let_def)

lemma get_model_None_Inr:
  "global_model s = None \<Longrightarrow> SentenceTransformer env ''BAAI/bge-m3'' (world s) = (Inr h, w') \<Longrightarrow>
   get_model env s =
     (Inr \<lparr>oid = next_oid s, model = h\<rparr>,
      s\<lparr>next_oid := Suc (next_oid s), world := w', ctor_calls := Suc (ctor_calls s),
        constructed := Suc (constructed s),
        stdout := stdout s @ [''Initializing BGE model: BAAI/bge-m3'', ''Model initialized successfully''],
        global_model := Some \<lparr>oid = next_oid s, model = h\<rparr>\<rparr>)"
  by (simp add: get_model_def BGEEmbedder_init_def print_def log_and_reraise_def Let_def)

lemma get_model_cases:
  assumes "global_model s = None"
  obtains (fails) e s' where "get_model env s = (Inl e, s')" "global_model s' = None"
      "constructed s' = constructed s" "ctor_calls s' = Suc (ctor_calls s)"
  | (loads) m s' where "get_model env s = (Inr m, s')" "global_model s' = Some m"
      "constructed s' = Suc (constructed s)" "ctor_calls s' = Suc (ctor_calls s)"
proof -
  obtain r w' where ctor: "SentenceTransformer env ''BAAI/bge-m3'' (world s) = (r, w')"
    by (cases "SentenceTransformer env ''BAAI/bge-m3'' (world s)")
  define s1 where "s1 = snd (get_model env s)"
  show thesis
  proof (cases r)
    case (Inl e)
    with ctor assms have "get_model env s = (Inl e, s1)" "global_model s1 = None"
        "constructed s1 = constructed s" "ctor_calls s1 = Suc (ctor_calls s)"
      by (simp_all add: s1_def get_model_None_Inl)
    then show thesis by (rule fails)
  next
    case (Inr h)
    with ctor assms have "get_model env s = (Inr \<lparr>oid = next_oid s, model = h\<rparr>, s1)"
        "global_model s1 = Some \<lparr>oid = next_oid s, model = h\<rparr>"
        "constructed s1 = Suc (constructed s)" "ctor_calls s1 = Suc (ctor_calls s)"
      by (simp_all add: s1_def get_model_None_Inr)
    then show thesis by (rule loads)
  qed
qed

lemma embed_text_initialized:
  "global_model s = Some m \<Longrightarrow> embed_text env t s = BGEEmbedder_embed_text env m t s"
  by (simp add: embed_text_def get_model_Some)

lemma embed_text_batch_initialized:
  "global_model s = Some m \<Longrightarrow> embed_text_batch env ts s = BGEEmbedder_embed_batch env m ts s"
  by (simp add: embed_text_batch_def get_model_Some)

lemma snd_returning: "snd (returning f r) = snd r"
  by (cases r; cases "fst r") (simp_all add: returning_def)

subsection \<open>Where an exception comes from\<close>

lemma raised_ctor: "SentenceTransformer env name w = (Inl e, w') \<Longrightarrow> raised_inside env e"
  unfolding raised_inside_def by (metis fst_conv)

lemma raised_encode: "encode env h xs w = (Inl e, w') \<Longrightarrow> raised_inside env e"
  unfolding raised_inside_def by (metis fst_conv)

lemma raised_str: "py_str env x = Inl e \<Longrightarrow> raised_inside env e"
  unfolding raised_inside_def by blast

lemma raised_IndexError: "raised_inside env IndexError"
  unfolding raised_inside_def by blast

lemma raised_str_py: "str_py env t = Inl e \<Longrightarrow> raised_inside env e"
  by (cases t) (simp_all add: str_py_def raised_str)

lemma raised_str_all: "str_all env ts = Inl e \<Longrightarrow> raised_inside env e"
  by (induction ts) (auto split: sum.splits dest: raised_str_py)

lemma str_all_map:
  "\<forall>t \<in> set texts. str_py env t = Inr (g t) \<Longrightarrow> str_all env texts = Inr (map g texts)"
  by (induction texts) simp_all

subsection \<open>The methods\<close>

text \<open>What a method call that raises has done.\<close>

lemma embed_text_method_raises:
  assumes "BGEEmbedder_embed_text env m t s = (Inl e, s')"
  shows "raised_inside env e
    \<and> stdout s' = stdout s @ (if is_Exception e then [''Error generating embedding: '' @ exn_str e] else [])
    \<and> encode_calls s' \<le> Suc (encode_calls s) \<and> ctor_calls s' = ctor_calls s
    \<and> constructed s' = constructed s \<and> global_model s' = global_model s"
proof (cases "str_py env t")
  case (Inl e')
  with assms show ?thesis
    by (cases t) (auto simp: BGEEmbedder_embed_text_def str_py_def log_and_reraise_def print_def Let_def
          raised_str split: if_splits)
next
  case (Inr x)
  obtain r w' where enc: "encode env (model m) [x] (world s) = (r, w')"
    by (cases "encode env (model m) [x] (world s)")
  from Inr have coerce: "(case t of PyStr x \<Rightarrow> Inr x | PyObj x \<Rightarrow> py_str env x) = Inr x"
    by (simp add: str_py_def)
  show ?thesis
  proof (cases r)
    case (Inl e')
    with assms enc coerce raised_encode [of env "model m" "[x]" "world s" e' w'] show ?thesis
      by (auto simp: BGEEmbedder_embed_text_def log_and_reraise_def print_def Let_def split: if_splits)
  next
    case (Inr embs)
    with assms enc coerce show ?thesis
      by (cases embs)
         (auto simp: BGEEmbedder_embed_text_def log_and_reraise_def print_def Let_def raised_IndexError [unfolded IndexError_def]
            IndexError_def split: if_splits)
  qed
qed

lemma embed_batch_method_raises:
  assumes "BGEEmbedder_embed_batch env m ts s = (Inl e, s')"
  shows "raised_inside env e
    \<and> stdout s' = stdout s @ (if is_Exception e then [''Error generating batch embeddings: '' @ exn_str e] else [])
    \<and> encode_calls s' \<le> Suc (encode_calls s) \<and> ctor_calls s' = ctor_calls s
    \<and> constructed s' = constructed s \<and> global_model s' = global_model s"
proof (cases "str_all env ts")
  case (Inl e')
  with assms raised_str_all [of env ts e'] show ?thesis
    by (auto simp: BGEEmbedder_embed_batch_def log_and_reraise_def print_def Let_def split: if_splits)
next
  case (Inr xs)
  obtain r w' where enc: "encode env (model m) xs (world s) = (r, w')"
    by (cases "encode env (model m) xs (world s)")
  show ?thesis
  proof (cases r)
    case (Inl e')
    with assms enc Inr raised_encode [of env "model m" xs "world s" e' w'] show ?thesis
      by (auto simp: BGEEmbedder_embed_batch_def log_and_reraise_def print_def Let_def split: if_splits)
  next
    case (Inr embs)
    with assms enc \<open>str_all env ts = Inr xs\<close> show ?thesis
      by (simp add: BGEEmbedder_embed_batch_def Let_def)
  qed
qed

text \<open>The methods leave the module-level variable and the construction counters alone.\<close>

lemma embed_text_method_frame:
  "global_model (snd (BGEEmbedder_embed_text env m t s)) = global_model s
   \<and> ctor_calls (snd (BGEEmbedder_embed_text env m t s)) = ctor_calls s
   \<and> constructed (snd (BGEEmbedder_embed_text env m t s)) = constructed s"
  by (simp add: BGEEmbedder_embed_text_def log_and_reraise_def print_def Let_def
        split: sum.split prod.split list.split pyval.split)

lemma embed_batch_method_frame:
  "global_model (snd (BGEEmbedder_embed_batch env m ts s)) = global_model s
   \<and> ctor_calls (snd (BGEEmbedder_embed_batch env m ts s)) = ctor_calls s
   \<and> constructed (snd (BGEEmbedder_embed_batch env m ts s)) = constructed s"
  by (simp add: BGEEmbedder_embed_batch_def log_and_reraise_def print_def Let_def
        split: sum.split prod.split)

subsection \<open>Failing calls\<close>

lemma error_lines_since_append:
  "stdout s' = stdout s @ new \<Longrightarrow> error_lines_since s s' = filter is_error_line new"
  by (simp add: error_lines_since_def printed_since_def)

lemma init_raises:
  assumes "BGEEmbedder_init env name s = (Inl e, s')"
  shows "raised_inside env e
    \<and> stdout s' = stdout s @ [''Initializing BGE model: '' @ name]
         @ (if is_Exception e then [''Error initializing model: '' @ exn_str e] else [])
    \<and> ctor_calls s' = Suc (ctor_calls s) \<and> encode_calls s' = encode_calls s"
proof -
  obtain r w' where ctor: "SentenceTransformer env name (world s) = (r, w')"
    by (cases "SentenceTransformer env name (world s)")
  show ?thesis
  proof (cases r)
    case (Inl e')
    with assms ctor raised_ctor [of env name "world s" e' w'] show ?thesis
      by (auto simp: BGEEmbedder_init_def log_and_reraise_def print_def Let_def split: if_splits)
  next
    case (Inr h)
    with assms ctor show ?thesis
      by (simp add: BGEEmbedder_init_def print_def Let_def)
  qed
qed

lemma init_returns:
  assumes "BGEEmbedder_init env name s = (Inr m, s')"
  shows "stdout s' = stdout s @ [''Initializing BGE model: '' @ name, ''Model initialized successfully'']
    \<and> ctor_calls s' = Suc (ctor_calls s) \<and> encode_calls s' = encode_calls s"
proof -
  obtain r w' where ctor: "SentenceTransformer env name (world s) = (r, w')"
    by (cases "SentenceTransformer env name (world s)")
  show ?thesis
  proof (cases r)
    case (Inl e')
    with assms ctor show ?thesis
      by (auto simp: BGEEmbedder_init_def log_and_reraise_def print_def Let_def split: if_splits)
  next
    case (Inr h)
    with assms ctor show ?thesis
      by (auto simp: BGEEmbedder_init_def print_def Let_def)
  qed
qed

lemma get_model_raises:
  assumes "get_model env s = (Inl e, s')"
  shows "raised_inside env e
    \<and> stdout s' = stdout s @ [''Initializing BGE model: BAAI/bge-m3'']
         @ (if is_Exception e then [''Error initializing model: '' @ exn_str e] else [])
    \<and> ctor_calls s' = Suc (ctor_calls s) \<and> encode_calls s' = encode_calls s"
proof (cases "global_model s")
  case None
  with assms have "BGEEmbedder_init env ''BAAI/bge-m3'' s = (Inl e, s')"
    by (auto simp: get_model_def split: prod.splits sum.splits)
  from init_raises [OF this] show ?thesis by simp
next
  case (Some m)
  with assms show ?thesis by (simp add: get_model_Some)
qed

lemma get_model_returns:
  assumes "get_model env s = (Inr m, s')"
  shows "(stdout s' = stdout s
          \<or> stdout s' = stdout s @ [''Initializing BGE model: BAAI/bge-m3'', ''Model initialized successfully''])
    \<and> ctor_calls s' \<le> Suc (ctor_calls s) \<and> encode_calls s' = encode_calls s"
proof (cases "global_model s")
  case None
  with assms obtain s1 where "BGEEmbedder_init env ''BAAI/bge-m3'' s = (Inr m, s1)"
      and "s' = s1\<lparr>global_model := Some m\<rparr>"
    by (auto simp: get_model_def split: prod.splits sum.splits)
  with init_returns [of env "''BAAI/bge-m3''" s m s1] show ?thesis by simp
next
  case (Some m')
  with assms show ?thesis by (simp add: get_model_Some)
qed

lemma logged_by_handlerI:
  assumes "stdout s' = stdout s @ pre @ (if is_Exception e then [p @ exn_str e] else [])"
    and "filter is_error_line pre = []" and "p \<in> error_prefixes"
  shows "logged_by_handler s s' e"
proof -
  from assms(3) have "is_error_line (p @ exn_str e)"
    by (auto simp: error_prefixes_def is_error_line_def)
  with assms show ?thesis
    by (auto simp: logged_by_handler_def error_lines_since_append [OF assms(1)])
qed

lemma init_handled_once:
  assumes "BGEEmbedder_init env name s = (Inl e, s')"
  shows "handled_once env s s' e"
  using init_raises [OF assms]
    logged_by_handlerI [of s' s "[''Initializing BGE model: '' @ name]" e "''Error initializing model: ''"]
  by (simp add: handled_once_def is_error_line_def error_prefixes_def)

lemma embed_text_method_handled_once:
  assumes "BGEEmbedder_embed_text env m t s = (Inl e, s')"
  shows "handled_once env s s' e"
  using embed_text_method_raises [OF assms]
    logged_by_handlerI [of s' s "[]" e "''Error generating embedding: ''"]
  by (simp add: handled_once_def error_prefixes_def)

lemma embed_batch_method_handled_once:
  assumes "BGEEmbedder_embed_batch env m ts s = (Inl e, s')"
  shows "handled_once env s s' e"
  using embed_batch_method_raises [OF assms]
    logged_by_handlerI [of s' s "[]" e "''Error generating batch embeddings: ''"]
  by (simp add: handled_once_def error_prefixes_def)

lemma get_model_handled_once:
  assumes "get_model env s = (Inl e, s')"
  shows "handled_once env s s' e"
  using get_model_raises [OF assms]
    logged_by_handlerI [of s' s "[''Initializing BGE model: BAAI/bge-m3'']" e "''Error initializing model: ''"]
  by (simp add: handled_once_def is_error_line_def error_prefixes_def)

lemma after_get_model_handled_once:
  assumes gm: "get_model env s = (Inr m, s1)"
    and raises: "raised_inside env e
      \<and> stdout s' = stdout s1 @ (if is_Exception e then [p @ exn_str e] else [])
      \<and> encode_calls s' \<le> Suc (encode_calls s1) \<and> ctor_calls s' = ctor_calls s1
      \<and> constructed s' = constructed s1 \<and> global_model s' = global_model s1"
    and p: "p \<in> error_prefixes"
  shows "handled_once env s s' e"
proof -
  from get_model_returns [OF gm] obtain pre where
    pre: "stdout s1 = stdout s @ pre" "filter is_error_line pre = []"
    and calls: "ctor_calls s1 \<le> Suc (ctor_calls s)" "encode_calls s1 = encode_calls s"
    by (auto simp: is_error_line_def)
  from raises pre have "stdout s' = stdout s @ pre @ (if is_Exception e then [p @ exn_str e] else [])"
    by simp
  from logged_by_handlerI [OF this pre(2) p] raises calls show ?thesis
    by (simp add: handled_once_def)
qed

lemma exec_op_handled_once:
  assumes "exec_op env c s = (Inl e, s')"
  shows "handled_once env s s' e"
proof (cases c)
  case GetModel
  with assms have "get_model env s = (Inl e, s')"
    by (auto simp: returning_def split: prod.splits sum.splits)
  then show ?thesis by (rule get_model_handled_once)
next
  case (EmbedText t)
  with assms have call: "embed_text env t s = (Inl e, s')"
    by (auto simp: returning_def split: prod.splits sum.splits)
  obtain r s1 where gm: "get_model env s = (r, s1)"
    by (cases "get_model env s")
  show ?thesis
  proof (cases r)
    case (Inl e')
    with call gm have "get_model env s = (Inl e, s')"
      by (simp add: embed_text_def)
    then show ?thesis by (rule get_model_handled_once)
  next
    case (Inr m)
    with call gm have "BGEEmbedder_embed_text env m t s1 = (Inl e, s')"
      by (simp add: embed_text_def)
    from after_get_model_handled_once [OF gm [unfolded Inr] embed_text_method_raises [OF this]]
    show ?thesis by (simp add: error_prefixes_def)
  qed
next
  case (EmbedTextBatch ts)
  with assms have call: "embed_text_batch env ts s = (Inl e, s')"
    by (auto simp: returning_def split: prod.splits sum.splits)
  obtain r s1 where gm: "get_model env s = (r, s1)"
    by (cases "get_model env s")
  show ?thesis
  proof (cases r)
    case (Inl e')
    with call gm have "get_model env s = (Inl e, s')"
      by (simp add: embed_text_batch_def)
    then show ?thesis by (rule get_model_handled_once)
  next
    case (Inr m)
    with call gm have "BGEEmbedder_embed_batch env m ts s1 = (Inl e, s')"
      by (simp add: embed_text_batch_def)
    from after_get_model_handled_once [OF gm [unfolded Inr] embed_batch_method_raises [OF this]]
    show ?thesis by (simp add: error_prefixes_def)
  qed
qed

section \<open>Failures of the external model\<close>

text \<open>
  Claim C1, as amended. When \<open>encode\<close> raises an exception \<open>e\<close> during \<open>embed_text\<close> or
  \<open>embed_batch\<close> (the inputs having been coerced to strings), the method raises \<open>e\<close>
  itself, whatever its class: nothing converts it to an \<open>InferenceError\<close>. It returns
  no vector, \<open>encode\<close> has been called once and is not called again, and the error line
  with \<open>str(e)\<close> is printed first when \<open>e\<close> is an instance of \<open>Exception\<close>; an exception
  that is not one propagates with nothing printed.
\<close>

theorem encode_failure_reraised:
  "(str_py env text = Inr x \<longrightarrow> encode env (model self) [x] (world s) = (Inl e, w') \<longrightarrow>
      BGEEmbedder_embed_text env self text s =
        (Inl e, s\<lparr>world := w', encode_calls := Suc (encode_calls s),
                  stdout := stdout s @ (if is_Exception e
                     then [''Error generating embedding: '' @ exn_str e] else [])\<rparr>))
   \<and> (str_all env texts = Inr xs \<longrightarrow> encode env (model self) xs (world s) = (Inl e, w') \<longrightarrow>
      BGEEmbedder_embed_batch env self texts s =
        (Inl e, s\<lparr>world := w', encode_calls := Suc (encode_calls s),
                  stdout := stdout s @ (if is_Exception e
                     then [''Error generating batch embeddings: '' @ exn_str e] else [])\<rparr>))"
  by (simp add: BGEEmbedder_embed_text_def BGEEmbedder_embed_batch_def str_py_def
        print_def log_and_reraise_def)

theorem encode_failure_reraised_witness:
  "BGEEmbedder_embed_text demo_ext demo_self (PyStr ''boom'') (init_state 1) =
     (Inl RuntimeError_oom,
      \<lparr>world = 1, stdout = [''Error generating embedding: CUDA out of memory''], next_oid = 0,
       global_model = None, ctor_calls = 0, constructed = 0, encode_calls = 1\<rparr>)
   \<and> BGEEmbedder_embed_batch demo_ext demo_self [PyObj PyNone, PyStr ''^C''] (init_state 1) =
     (Inl KeyboardInterrupt,
      \<lparr>world = 1, stdout = [], next_oid = 0,
       global_model = None, ctor_calls = 0, constructed = 0, encode_calls = 1\<rparr>)"
  using encode_failure_reraised [of demo_ext "PyStr ''boom''" "''boom''" demo_self "init_state 1"
              RuntimeError_oom 1 "[PyObj PyNone, PyStr ''^C'']" "[''None'', ''^C'']"]
        encode_failure_reraised [of demo_ext "PyStr ''boom''" "''boom''" demo_self "init_state 1"
              KeyboardInterrupt 1 "[PyObj PyNone, PyStr ''^C'']" "[''None'', ''^C'']"]
  by (simp add: str_py_def demo_simps demo_encode_def init_state_def RuntimeError_oom_def
        KeyboardInterrupt_def)

text \<open>
  Claim C1 as stated fails: an out-of-memory \<open>RuntimeError\<close> of \<open>encode\<close> reaches the
  caller as that \<open>RuntimeError\<close>, not as an \<open>InferenceError\<close>, and a \<open>KeyboardInterrupt\<close>
  raised by \<open>encode\<close> is re-raised with nothing logged.
\<close>

theorem encode_failure_not_InferenceError:
  "fst (BGEEmbedder_embed_text demo_ext demo_self (PyStr ''boom'') (init_state 1))
     = Inl RuntimeError_oom
   \<and> exn_class RuntimeError_oom \<noteq> ''InferenceError''
   \<and> fst (BGEEmbedder_embed_batch demo_ext demo_self [PyStr ''^C''] (init_state 1))
     = Inl KeyboardInterrupt
   \<and> stdout (snd (BGEEmbedder_embed_batch demo_ext demo_self [PyStr ''^C''] (init_state 1))) = []"
  by (simp add: BGEEmbedder_embed_text_def BGEEmbedder_embed_batch_def str_py_def demo_simps
        demo_encode_def print_def log_and_reraise_def init_state_def RuntimeError_oom_def
        KeyboardInterrupt_def)

text \<open>
  Claim C2, as amended. When \<open>SentenceTransformer\<close> raises an exception \<open>e\<close> for the
  given identifier, the construction raises \<open>e\<close> itself, whatever its class: nothing
  converts it to a \<open>ModelLoadError\<close>. The line naming the identifier has been printed,
  followed by the error line with \<open>str(e)\<close> when \<open>e\<close> is an instance of \<open>Exception\<close>;
  the loader has been called once and is not called again; no instance is returned
  and \<open>_model\<close> is as it was.
\<close>

theorem load_failure_reraised:
  "SentenceTransformer env model_name (world s) = (Inl e, w') \<Longrightarrow>
   BGEEmbedder_init env model_name s =
     (Inl e, s\<lparr>next_oid := Suc (next_oid s), world := w', ctor_calls := Suc (ctor_calls s),
        stdout := stdout s @ [''Initializing BGE model: '' @ model_name]
                  @ (if is_Exception e then [''Error initializing model: '' @ exn_str e] else [])\<rparr>)"
  by (simp add: BGEEmbedder_init_def print_def log_and_reraise_def)

theorem load_failure_reraised_witness:
  "BGEEmbedder_init demo_ext ''BAAI/bge-m3'' (init_state 0) =
     (Inl OSError_missing,
      \<lparr>world = 1,
       stdout = [''Initializing BGE model: BAAI/bge-m3'',
                 ''Error initializing model: BAAI/bge-m3 does not appear to have model weights''],
       next_oid = 1, global_model = None, ctor_calls = 1, constructed = 0, encode_calls = 0\<rparr>)"
  using load_failure_reraised [of demo_ext "''BAAI/bge-m3''" "init_state 0" OSError_missing 1]
  by (simp add: demo_simps demo_SentenceTransformer_def init_state_def OSError_missing_def)

text \<open>
  Claim C2 as stated fails: a load that fails with an \<open>OSError\<close> reaches the caller as
  that \<open>OSError\<close>, not as a \<open>ModelLoadError\<close>, and a load interrupted from the keyboard
  prints the identifier line only, with no error line.
\<close>

theorem load_failure_not_ModelLoadError:
  "fst (BGEEmbedder_init demo_ext ''BAAI/bge-m3'' (init_state 0)) = Inl OSError_missing
   \<and> exn_class OSError_missing \<noteq> ''ModelLoadError''
   \<and> fst (BGEEmbedder_init interrupted_ext ''BAAI/bge-m3'' (init_state 0)) = Inl KeyboardInterrupt
   \<and> stdout (snd (BGEEmbedder_init interrupted_ext ''BAAI/bge-m3'' (init_state 0)))
       = [''Initializing BGE model: BAAI/bge-m3'']"
  by (simp add: BGEEmbedder_init_def interrupted_ext_def demo_simps demo_SentenceTransformer_def
        print_def log_and_reraise_def init_state_def OSError_missing_def KeyboardInterrupt_def)

lemma exec_op_get_model_raises:
  "get_model env s = (Inl e, s') \<Longrightarrow> exec_op env c s = (Inl e, s')"
  by (cases c) (simp_all add: returning_def embed_text_def embed_text_batch_def)

text \<open>
  Claim C3, as amended. A failure in construction or embedding is the loader raising,
  a \<open>__str__\<close> raising during the coercion, \<open>encode\<close> raising, or the indexing of an
  empty result raising. For every one of them the facade recovers nothing: the
  constructor or method raises that very exception, unchanged, returns no instance
  and no vector, has called the loader or \<open>encode\<close> at most once, and has printed
  exactly one error line with the message when the exception is an instance of
  \<open>Exception\<close> and none when it is not. The module-level functions hand the exception
  of \<open>get_model\<close> or of the method on as it is, in the state the failure left, with
  nothing more printed. Conversely, every call that fails has printed exactly one
  error line for an instance of \<open>Exception\<close> and none otherwise, counted from the start
  of the call, and has called the loader and \<open>encode\<close> at most once each.
\<close>

theorem failure_logged_once_reraised:
  "(SentenceTransformer env name (world s) = (Inl e, w') \<longrightarrow>
      BGEEmbedder_init env name s =
        (Inl e, s\<lparr>next_oid := Suc (next_oid s), world := w', ctor_calls := Suc (ctor_calls s),
           stdout := stdout s @ [''Initializing BGE model: '' @ name]
             @ (if is_Exception e then [''Error initializing model: '' @ exn_str e] else [])\<rparr>))
   \<and> (str_py env t = Inl e \<longrightarrow>
      BGEEmbedder_embed_text env m t s =
        (Inl e, s\<lparr>stdout := stdout s @ (if is_Exception e
                     then [''Error generating embedding: '' @ exn_str e] else [])\<rparr>))
   \<and> (str_py env t = Inr x \<and> encode env (model m) [x] (world s) = (Inl e, w') \<longrightarrow>
      BGEEmbedder_embed_text env m t s =
        (Inl e, s\<lparr>world := w', encode_calls := Suc (encode_calls s),
                  stdout := stdout s @ (if is_Exception e
                     then [''Error generating embedding: '' @ exn_str e] else [])\<rparr>))
   \<and> (str_py env t = Inr x \<and> encode env (model m) [x] (world s) = (Inr [], w') \<longrightarrow>
      BGEEmbedder_embed_text env m t s =
        (Inl IndexError, s\<lparr>world := w', encode_calls := Suc (encode_calls s),
                  stdout := stdout s @ [''Error generating embedding: '' @ exn_str IndexError]\<rparr>))
   \<and> (str_all env ts = Inl e \<longrightarrow>
      BGEEmbedder_embed_batch env m ts s =
        (Inl e, s\<lparr>stdout := stdout s @ (if is_Exception e
                     then [''Error generating batch embeddings: '' @ exn_str e] else [])\<rparr>))
   \<and> (str_all env ts = Inr xs \<and> encode env (model m) xs (world s) = (Inl e, w') \<longrightarrow>
      BGEEmbedder_embed_batch env m ts s =
        (Inl e, s\<lparr>world := w', encode_calls := Suc (encode_calls s),
                  stdout := stdout s @ (if is_Exception e
                     then [''Error generating batch embeddings: '' @ exn_str e] else [])\<rparr>))
   \<and> (global_model s = None \<and> SentenceTransformer env ''BAAI/bge-m3'' (world s) = (Inl e, w') \<longrightarrow>
      get_model env s =
        (Inl e, s\<lparr>next_oid := Suc (next_oid s), world := w', ctor_calls := Suc (ctor_calls s),
           stdout := stdout s @ [''Initializing BGE model: BAAI/bge-m3'']
             @ (if is_Exception e then [''Error initializing model: '' @ exn_str e] else [])\<rparr>))
   \<and> (get_model env s = (Inl e, s') \<longrightarrow> exec_op env c s = (Inl e, s'))
   \<and> (get_model env s = (Inr m, s1) \<and> BGEEmbedder_embed_text env m t s1 = (Inl e, s') \<longrightarrow>
      exec_op env (EmbedText t) s = (Inl e, s'))
   \<and> (get_model env s = (Inr m, s1) \<and> BGEEmbedder_embed_batch env m ts s1 = (Inl e, s') \<longrightarrow>
      exec_op env (EmbedTextBatch ts) s = (Inl e, s'))
   \<and> (BGEEmbedder_init env name s = (Inl e, s') \<longrightarrow> handled_once env s s' e)
   \<and> (BGEEmbedder_embed_text env m t s = (Inl e, s') \<longrightarrow> handled_once env s s' e)
   \<and> (BGEEmbedder_embed_batch env m ts s = (Inl e, s') \<longrightarrow> handled_once env s s' e)
   \<and> (exec_op env c s = (Inl e, s') \<longrightarrow> handled_once env s s' e)"
proof -
  have load: "SentenceTransformer env name (world s) = (Inl e, w') \<longrightarrow>
      BGEEmbedder_init env name s =
        (Inl e, s\<lparr>next_oid := Suc (next_oid s), world := w', ctor_calls := Suc (ctor_calls s),
           stdout := stdout s @ [''Initializing BGE model: '' @ name]
             @ (if is_Exception e then [''Error initializing model: '' @ exn_str e] else [])\<rparr>)"
    by (simp add: BGEEmbedder_init_def print_def log_and_reraise_def)
  have coerce1: "str_py env t = Inl e \<longrightarrow>
      BGEEmbedder_embed_text env m t s =
        (Inl e, s\<lparr>stdout := stdout s @ (if is_Exception e
                     then [''Error generating embedding: '' @ exn_str e] else [])\<rparr>)"
    by (simp add: BGEEmbedder_embed_text_def str_py_def print_def log_and_reraise_def)
  have encode1: "str_py env t = Inr x \<and> encode env (model m) [x] (world s) = (Inl e, w') \<longrightarrow>
      BGEEmbedder_embed_text env m t s =
        (Inl e, s\<lparr>world := w', encode_calls := Suc (encode_calls s),
                  stdout := stdout s @ (if is_Exception e
                     then [''Error generating embedding: '' @ exn_str e] else [])\<rparr>)"
    by (simp add: BGEEmbedder_embed_text_def str_py_def print_def log_and_reraise_def)
  have index1: "str_py env t = Inr x \<and> encode env (model m) [x] (world s) = (Inr [], w') \<longrightarrow>
      BGEEmbedder_embed_text env m t s =
        (Inl IndexError, s\<lparr>world := w', encode_calls := Suc (encode_calls s),
                  stdout := stdout s @ [''Error generating embedding: '' @ exn_str IndexError]\<rparr>)"
    by (simp add: BGEEmbedder_embed_text_def str_py_def print_def log_and_reraise_def IndexError_def)
  have coerce2: "str_all env ts = Inl e \<longrightarrow>
      BGEEmbedder_embed_batch env m ts s =
        (Inl e, s\<lparr>stdout := stdout s @ (if is_Exception e
                     then [''Error generating batch embeddings: '' @ exn_str e] else [])\<rparr>)"
    by (simp add: BGEEmbedder_embed_batch_def print_def log_and_reraise_def)
  have encode2: "str_all env ts = Inr xs \<and> encode env (model m) xs (world s) = (Inl e, w') \<longrightarrow>
      BGEEmbedder_embed_batch env m ts s =
        (Inl e, s\<lparr>world := w', encode_calls := Suc (encode_calls s),
                  stdout := stdout s @ (if is_Exception e
                     then [''Error generating batch embeddings: '' @ exn_str e] else [])\<rparr>)"
    by (simp add: BGEEmbedder_embed_batch_def print_def log_and_reraise_def)
  have accessor: "global_model s = None
        \<and> SentenceTransformer env ''BAAI/bge-m3'' (world s) = (Inl e, w') \<longrightarrow>
      get_model env s =
        (Inl e, s\<lparr>next_oid := Suc (next_oid s), world := w', ctor_calls := Suc (ctor_calls s),
           stdout := stdout s @ [''Initializing BGE model: BAAI/bge-m3'']
             @ (if is_Exception e then [''Error initializing model: '' @ exn_str e] else [])\<rparr>)"
    by (simp add: get_model_None_Inl)
  have through: "get_model env s = (Inl e, s') \<longrightarrow> exec_op env c s = (Inl e, s')"
    by (simp add: exec_op_get_model_raises)
  have through1: "get_model env s = (Inr m, s1) \<and> BGEEmbedder_embed_text env m t s1 = (Inl e, s') \<longrightarrow>
      exec_op env (EmbedText t) s = (Inl e, s')"
    by (auto simp: returning_def embed_text_def)
  have through2: "get_model env s = (Inr m, s1) \<and> BGEEmbedder_embed_batch env m ts s1 = (Inl e, s') \<longrightarrow>
      exec_op env (EmbedTextBatch ts) s = (Inl e, s')"
    by (auto simp: returning_def embed_text_batch_def)
  have back0: "BGEEmbedder_init env name s = (Inl e, s') \<longrightarrow> handled_once env s s' e"
    by (simp add: init_handled_once)
  have back1: "BGEEmbedder_embed_text env m t s = (Inl e, s') \<longrightarrow> handled_once env s s' e"
    by (simp add: embed_text_method_handled_once)
  have back2: "BGEEmbedder_embed_batch env m ts s = (Inl e, s') \<longrightarrow> handled_once env s s' e"
    by (simp add: embed_batch_method_handled_once)
  have back3: "exec_op env c s = (Inl e, s') \<longrightarrow> handled_once env s s' e"
    by (simp add: exec_op_handled_once)
  show ?thesis
    by (intro conjI load coerce1 encode1 index1 coerce2 encode2 accessor through through1 through2
          back0 back1 back2 back3)
qed

theorem failure_logged_once_reraised_witness:
  "BGEEmbedder_init demo_ext ''BAAI/bge-m3'' (init_state 0) =
     (Inl OSError_missing,
      \<lparr>world = 1,
       stdout = [''Initializing BGE model: BAAI/bge-m3'',
                 ''Error initializing model: BAAI/bge-m3 does not appear to have model weights''],
       next_oid = 1, global_model = None, ctor_calls = 1, constructed = 0, encode_calls = 0\<rparr>)
   \<and> BGEEmbedder_embed_text unprintable_ext demo_self (PyObj PyNone) (init_state 1) =
     (Inl TypeError_str,
      \<lparr>world = 1,
       stdout = [''Error generating embedding: __str__ returned non-string (type int)''],
       next_oid = 0, global_model = None, ctor_calls = 0, constructed = 0, encode_calls = 0\<rparr>)
   \<and> BGEEmbedder_embed_text demo_ext demo_self (PyStr ''boom'') (init_state 1) =
     (Inl RuntimeError_oom,
      \<lparr>world = 1, stdout = [''Error generating embedding: CUDA out of memory''],
       next_oid = 0, global_model = None, ctor_calls = 0, constructed = 0, encode_calls = 1\<rparr>)
   \<and> BGEEmbedder_embed_text hollow_ext demo_self (PyStr ''ab'') (init_state 1) =
     (Inl IndexError,
      \<lparr>world = 1,
       stdout = [''Error generating embedding: index 0 is out of bounds for axis 0 with size 0''],
       next_oid = 0, global_model = None, ctor_calls = 0, constructed = 0, encode_calls = 1\<rparr>)
   \<and> BGEEmbedder_embed_batch unprintable_ext demo_self [PyStr ''a'', PyObj PyNone] (init_state 1) =
     (Inl TypeError_str,
      \<lparr>world = 1,
       stdout = [''Error generating batch embeddings: __str__ returned non-string (type int)''],
       next_oid = 0, global_model = None, ctor_calls = 0, constructed = 0, encode_calls = 0\<rparr>)
   \<and> BGEEmbedder_embed_batch demo_ext demo_self [PyStr ''a'', PyStr ''boom''] (init_state 1) =
     (Inl RuntimeError_oom,
      \<lparr>world = 1, stdout = [''Error generating batch embeddings: CUDA out of memory''],
       next_oid = 0, global_model = None, ctor_calls = 0, constructed = 0, encode_calls = 1\<rparr>)
   \<and> exec_op demo_ext (EmbedText (PyStr ''ab'')) (init_state 0) =
     (Inl OSError_missing,
      \<lparr>world = 1,
       stdout = [''Initializing BGE model: BAAI/bge-m3'',
                 ''Error initializing model: BAAI/bge-m3 does not appear to have model weights''],
       next_oid = 1, global_model = None, ctor_calls = 1, constructed = 0, encode_calls = 0\<rparr>)
   \<and> get_model demo_ext (init_state 0) =
     (Inl OSError_missing,
      \<lparr>world = 1,
       stdout = [''Initializing BGE model: BAAI/bge-m3'',
                 ''Error initializing model: BAAI/bge-m3 does not appear to have model weights''],
       next_oid = 1, global_model = None, ctor_calls = 1, constructed = 0, encode_calls = 0\<rparr>)
   \<and> exec_op demo_ext (EmbedText (PyStr ''boom'')) (init_state 1) =
     (Inl RuntimeError_oom,
      \<lparr>world = 2,
       stdout = [''Initializing BGE model: BAAI/bge-m3'', ''Model initialized successfully'',
                 ''Error generating embedding: CUDA out of memory''],
       next_oid = 1, global_model = Some demo_self, ctor_calls = 1, constructed = 1,
       encode_calls = 1\<rparr>)
   \<and> exec_op demo_ext (EmbedTextBatch [PyStr ''boom'']) (init_state 1) =
     (Inl RuntimeError_oom,
      \<lparr>world = 2,
       stdout = [''Initializing BGE model: BAAI/bge-m3'', ''Model initialized successfully'',
                 ''Error generating batch embeddings: CUDA out of memory''],
       next_oid = 1, global_model = Some demo_self, ctor_calls = 1, constructed = 1,
       encode_calls = 1\<rparr>)
   \<and> handled_once demo_ext (init_state 1)
        (snd (exec_op demo_ext (EmbedText (PyStr ''boom'')) (init_state 1))) RuntimeError_oom
   \<and> error_lines_since (init_state 1) (snd (exec_op demo_ext (EmbedText (PyStr ''boom'')) (init_state 1)))
        = [''Error generating embedding: CUDA out of memory'']"
proof -
  let ?s0 = "init_state 0 :: (nat, nat) pstate"
  let ?s1 = "init_state 1 :: (nat, nat) pstate"
  let ?loaded = "snd (get_model demo_ext ?s1)"
  have load: "BGEEmbedder_init demo_ext ''BAAI/bge-m3'' ?s0 =
     (Inl OSError_missing,
      \<lparr>world = 1,
       stdout = [''Initializing BGE model: BAAI/bge-m3'',
                 ''Error initializing model: BAAI/bge-m3 does not appear to have model weights''],
       next_oid = 1, global_model = None, ctor_calls = 1, constructed = 0, encode_calls = 0\<rparr>)"
    using failure_logged_once_reraised [where env = demo_ext and name = "''BAAI/bge-m3''" and s = ?s0
                   and e = OSError_missing and w' = 1]
    by (simp add: demo_simps demo_SentenceTransformer_def init_state_def OSError_missing_def)
  have coerce1: "BGEEmbedder_embed_text unprintable_ext demo_self (PyObj PyNone) ?s1 =
     (Inl TypeError_str,
      \<lparr>world = 1,
       stdout = [''Error generating embedding: __str__ returned non-string (type int)''],
       next_oid = 0, global_model = None, ctor_calls = 0, constructed = 0, encode_calls = 0\<rparr>)"
    using failure_logged_once_reraised [where env = unprintable_ext and t = "PyObj PyNone" and s = ?s1
                   and e = TypeError_str and m = demo_self]
    by (simp add: str_py_def fake_ext_defs init_state_def)
  have encode1: "BGEEmbedder_embed_text demo_ext demo_self (PyStr ''boom'') ?s1 =
     (Inl RuntimeError_oom,
      \<lparr>world = 1, stdout = [''Error generating embedding: CUDA out of memory''],
       next_oid = 0, global_model = None, ctor_calls = 0, constructed = 0, encode_calls = 1\<rparr>)"
    using failure_logged_once_reraised [where env = demo_ext and t = "PyStr ''boom''" and x = "''boom''" and s = ?s1
                   and e = RuntimeError_oom and m = demo_self and w' = 1]
    by (simp add: str_py_def demo_simps demo_encode_def init_state_def RuntimeError_oom_def)
  have index1: "BGEEmbedder_embed_text hollow_ext demo_self (PyStr ''ab'') ?s1 =
     (Inl IndexError,
      \<lparr>world = 1,
       stdout = [''Error generating embedding: index 0 is out of bounds for axis 0 with size 0''],
       next_oid = 0, global_model = None, ctor_calls = 0, constructed = 0, encode_calls = 1\<rparr>)"
    using failure_logged_once_reraised [where env = hollow_ext and t = "PyStr ''ab''" and x = "''ab''" and s = ?s1
                   and m = demo_self and w' = 1]
    by (simp add: str_py_def fake_ext_defs init_state_def)
  have coerce2: "BGEEmbedder_embed_batch unprintable_ext demo_self [PyStr ''a'', PyObj PyNone] ?s1 =
     (Inl TypeError_str,
      \<lparr>world = 1,
       stdout = [''Error generating batch embeddings: __str__ returned non-string (type int)''],
       next_oid = 0, global_model = None, ctor_calls = 0, constructed = 0, encode_calls = 0\<rparr>)"
    using failure_logged_once_reraised [where env = unprintable_ext and ts = "[PyStr ''a'', PyObj PyNone]" and s = ?s1
                   and e = TypeError_str and m = demo_self]
    by (simp add: str_py_def fake_ext_defs init_state_def)
  have encode2: "BGEEmbedder_embed_batch demo_ext demo_self [PyStr ''a'', PyStr ''boom''] ?s1 =
     (Inl RuntimeError_oom,
      \<lparr>world = 1, stdout = [''Error generating batch embeddings: CUDA out of memory''],
       next_oid = 0, global_model = None, ctor_calls = 0, constructed = 0, encode_calls = 1\<rparr>)"
    using failure_logged_once_reraised [where env = demo_ext and ts = "[PyStr ''a'', PyStr ''boom'']"
                   and xs = "[''a'', ''boom'']" and s = ?s1
                   and e = RuntimeError_oom and m = demo_self and w' = 1]
    by (simp add: str_py_def demo_simps demo_encode_def init_state_def RuntimeError_oom_def)
  have accessor: "get_model demo_ext ?s0 =
     (Inl OSError_missing,
      \<lparr>world = 1,
       stdout = [''Initializing BGE model: BAAI/bge-m3'',
                 ''Error initializing model: BAAI/bge-m3 does not appear to have model weights''],
       next_oid = 1, global_model = None, ctor_calls = 1, constructed = 0, encode_calls = 0\<rparr>)"
    using failure_logged_once_reraised [where env = demo_ext and s = ?s0 and e = OSError_missing and w' = 1]
    by (simp add: demo_simps demo_SentenceTransformer_def init_state_def OSError_missing_def)
  have through: "exec_op demo_ext (EmbedText (PyStr ''ab'')) ?s0 =
     (Inl OSError_missing,
      \<lparr>world = 1,
       stdout = [''Initializing BGE model: BAAI/bge-m3'',
                 ''Error initializing model: BAAI/bge-m3 does not appear to have model weights''],
       next_oid = 1, global_model = None, ctor_calls = 1, constructed = 0, encode_calls = 0\<rparr>)"
    using failure_logged_once_reraised [where env = demo_ext and s = ?s0 and e = OSError_missing
                   and s' = "snd (get_model demo_ext ?s0)" and c = "EmbedText (PyStr ''ab'')"]
          accessor
    by simp
  have loaded: "get_model demo_ext ?s1 = (Inr demo_self, ?loaded)"
    by (simp add: demo_run_defs)
  have method1: "BGEEmbedder_embed_text demo_ext demo_self (PyStr ''boom'') ?loaded =
     (Inl RuntimeError_oom,
      \<lparr>world = 2,
       stdout = [''Initializing BGE model: BAAI/bge-m3'', ''Model initialized successfully'',
                 ''Error generating embedding: CUDA out of memory''],
       next_oid = 1, global_model = Some demo_self, ctor_calls = 1, constructed = 1,
       encode_calls = 1\<rparr>)"
    by (simp add: demo_run_defs)
  have method2: "BGEEmbedder_embed_batch demo_ext demo_self [PyStr ''boom''] ?loaded =
     (Inl RuntimeError_oom,
      \<lparr>world = 2,
       stdout = [''Initializing BGE model: BAAI/bge-m3'', ''Model initialized successfully'',
                 ''Error generating batch embeddings: CUDA out of memory''],
       next_oid = 1, global_model = Some demo_self, ctor_calls = 1, constructed = 1,
       encode_calls = 1\<rparr>)"
    by (simp add: demo_run_defs)
  have through1: "exec_op demo_ext (EmbedText (PyStr ''boom'')) ?s1 =
     (Inl RuntimeError_oom,
      \<lparr>world = 2,
       stdout = [''Initializing BGE model: BAAI/bge-m3'', ''Model initialized successfully'',
                 ''Error generating embedding: CUDA out of memory''],
       next_oid = 1, global_model = Some demo_self, ctor_calls = 1, constructed = 1,
       encode_calls = 1\<rparr>)"
    using failure_logged_once_reraised [where env = demo_ext and s = ?s1 and m = demo_self and ?s1.0 = ?loaded
                   and t = "PyStr ''boom''" and e = RuntimeError_oom] loaded method1
    by blast
  have through2: "exec_op demo_ext (EmbedTextBatch [PyStr ''boom'']) ?s1 =
     (Inl RuntimeError_oom,
      \<lparr>world = 2,
       stdout = [''Initializing BGE model: BAAI/bge-m3'', ''Model initialized successfully'',
                 ''Error generating batch embeddings: CUDA out of memory''],
       next_oid = 1, global_model = Some demo_self, ctor_calls = 1, constructed = 1,
       encode_calls = 1\<rparr>)"
    using failure_logged_once_reraised [where env = demo_ext and s = ?s1 and m = demo_self and ?s1.0 = ?loaded
                   and ts = "[PyStr ''boom'']" and e = RuntimeError_oom] loaded method2
    by blast
  have handled: "handled_once demo_ext ?s1 (snd (exec_op demo_ext (EmbedText (PyStr ''boom'')) ?s1))
      RuntimeError_oom"
    using failure_logged_once_reraised [where env = demo_ext and s = ?s1 and c = "EmbedText (PyStr ''boom'')"
                   and e = RuntimeError_oom
                   and s' = "snd (exec_op demo_ext (EmbedText (PyStr ''boom'')) ?s1)"] through1
    by simp
  have lines: "error_lines_since ?s1 (snd (exec_op demo_ext (EmbedText (PyStr ''boom'')) ?s1))
      = [''Error generating embedding: CUDA out of memory'']"
    by (simp only: through1 snd_conv)
       (simp add: error_lines_since_def printed_since_def is_error_line_def init_state_def)
  from load coerce1 encode1 index1 coerce2 encode2 through accessor through1 through2 handled lines
  show ?thesis by (intro conjI)
qed

text \<open>
  Claim C3 as stated fails: when \<open>encode\<close> is interrupted from the keyboard during the
  first \<open>embed_text\<close>, the call fails with the \<open>KeyboardInterrupt\<close>, and the only lines it
  has printed are the two progress lines of the construction. The failure is logged
  zero times, not once.
\<close>

theorem interrupt_not_logged:
  "fst (exec_op demo_ext (EmbedText (PyStr ''^C'')) (init_state 1)) = Inl KeyboardInterrupt
   \<and> printed_since (init_state 1) (snd (exec_op demo_ext (EmbedText (PyStr ''^C'')) (init_state 1)))
       = [''Initializing BGE model: BAAI/bge-m3'', ''Model initialized successfully'']
   \<and> error_lines_since (init_state 1) (snd (exec_op demo_ext (EmbedText (PyStr ''^C'')) (init_state 1)))
       = []"
  by (simp add: demo_run_defs error_lines_since_def printed_since_def is_error_line_def)

section \<open>Coercion and the batch path\<close>

text \<open>
  Claim C6. Let \<open>x\<close> be an input that is not a string and \<open>t\<close> its string
  representation \<open>str(x)\<close>. Then \<open>embed_text(x)\<close> does exactly what \<open>embed_text(t)\<close> does,
  result or exception and final state, for the method and for the module-level
  function. What it does is this: it calls \<open>encode\<close> once, on the one-element list
  holding \<open>t\<close>, and returns the first vector of the result; when \<open>encode\<close> raises it
  raises the same exception after the handler; when the result is empty it raises the
  \<open>IndexError\<close>. The module-level function runs the method on the instance that
  \<open>get_model\<close> returns, and raises what \<open>get_model\<close> raises.
\<close>

theorem embed_text_coerces_to_str:
  "py_str env x = Inr t \<Longrightarrow>
     BGEEmbedder_embed_text env self (PyObj x) s = BGEEmbedder_embed_text env self (PyStr t) s
     \<and> embed_text env (PyObj x) s = embed_text env (PyStr t) s
     \<and> (encode env (model self) [t] (world s) = (Inr (v # vs), w') \<longrightarrow>
          BGEEmbedder_embed_text env self (PyObj x) s =
            (Inr v, s\<lparr>world := w', encode_calls := Suc (encode_calls s)\<rparr>))
     \<and> (encode env (model self) [t] (world s) = (Inl e, w') \<longrightarrow>
          BGEEmbedder_embed_text env self (PyObj x) s =
            (Inl e, s\<lparr>world := w', encode_calls := Suc (encode_calls s),
                      stdout := stdout s @ (if is_Exception e
                         then [''Error generating embedding: '' @ exn_str e] else [])\<rparr>))
     \<and> (encode env (model self) [t] (world s) = (Inr [], w') \<longrightarrow>
          BGEEmbedder_embed_text env self (PyObj x) s =
            (Inl IndexError, s\<lparr>world := w', encode_calls := Suc (encode_calls s),
                      stdout := stdout s @ [''Error generating embedding: '' @ exn_str IndexError]\<rparr>))
     \<and> (get_model env s = (Inr m, s1) \<longrightarrow>
          embed_text env (PyObj x) s = BGEEmbedder_embed_text env m (PyObj x) s1)
     \<and> (get_model env s = (Inl e, s1) \<longrightarrow> embed_text env (PyObj x) s = (Inl e, s1))"
  by (simp add: BGEEmbedder_embed_text_def embed_text_def print_def log_and_reraise_def
        tolist_def IndexError_def split: prod.split sum.split)

theorem embed_text_coerces_to_str_witness:
  "BGEEmbedder_embed_text demo_ext demo_self (PyObj (PyBool True)) (init_state 1)
     = BGEEmbedder_embed_text demo_ext demo_self (PyStr ''True'') (init_state 1)
   \<and> embed_text demo_ext (PyObj (PyBool True)) (init_state 1)
     = embed_text demo_ext (PyStr ''True'') (init_state 1)
   \<and> fst (embed_text demo_ext (PyStr ''True'') (init_state 1)) = Inr [4]
   \<and> BGEEmbedder_embed_text demo_ext demo_self (PyObj (PyBool True)) (init_state 1) =
       (Inr [4],
        \<lparr>world = 1, stdout = [], next_oid = 0, global_model = None, ctor_calls = 0,
         constructed = 0, encode_calls = 1\<rparr>)
   \<and> embed_text demo_ext (PyObj (PyBool True)) (init_state 0) =
     (Inl OSError_missing,
      \<lparr>world = 1,
       stdout = [''Initializing BGE model: BAAI/bge-m3'',
                 ''Error initializing model: BAAI/bge-m3 does not appear to have model weights''],
       next_oid = 1, global_model = None, ctor_calls = 1, constructed = 0, encode_calls = 0\<rparr>)"
proof -
  let ?s0 = "init_state 0 :: (nat, nat) pstate"
  let ?s1 = "init_state 1 :: (nat, nat) pstate"
  have str: "py_str demo_ext (PyBool True) = Inr ''True''"
    by (simp add: demo_simps)
  have enc: "encode demo_ext (model demo_self) [''True''] (world ?s1) = (Inr [[4]], 1)"
    by (simp add: demo_simps demo_encode_def init_state_def)
  have fails: "get_model demo_ext ?s0 =
     (Inl OSError_missing,
      \<lparr>world = 1,
       stdout = [''Initializing BGE model: BAAI/bge-m3'',
                 ''Error initializing model: BAAI/bge-m3 does not appear to have model weights''],
       next_oid = 1, global_model = None, ctor_calls = 1, constructed = 0, encode_calls = 0\<rparr>)"
    by (simp add: demo_run_defs)
  note inst = embed_text_coerces_to_str [OF str, where self = demo_self and v = "[4]" and vs = "[]" and w' = 1]
  from inst [where s = ?s1] enc
  have same: "BGEEmbedder_embed_text demo_ext demo_self (PyObj (PyBool True)) ?s1
        = BGEEmbedder_embed_text demo_ext demo_self (PyStr ''True'') ?s1"
    and same_module: "embed_text demo_ext (PyObj (PyBool True)) ?s1
        = embed_text demo_ext (PyStr ''True'') ?s1"
    and result: "BGEEmbedder_embed_text demo_ext demo_self (PyObj (PyBool True)) ?s1 =
       (Inr [4], ?s1\<lparr>world := 1, encode_calls := Suc (encode_calls ?s1)\<rparr>)"
    by blast+
  have fails': "get_model demo_ext ?s0 = (Inl OSError_missing, snd (get_model demo_ext ?s0))"
    by (simp add: fails)
  from inst [where s = ?s0 and e = OSError_missing and ?s1.0 = "snd (get_model demo_ext ?s0)"] fails'
  have "embed_text demo_ext (PyObj (PyBool True)) ?s0
      = (Inl OSError_missing, snd (get_model demo_ext ?s0))"
    by blast
  then have module_fails: "embed_text demo_ext (PyObj (PyBool True)) ?s0 =
     (Inl OSError_missing,
      \<lparr>world = 1,
       stdout = [''Initializing BGE model: BAAI/bge-m3'',
                 ''Error initializing model: BAAI/bge-m3 does not appear to have model weights''],
       next_oid = 1, global_model = None, ctor_calls = 1, constructed = 0, encode_calls = 0\<rparr>)"
    by (simp add: fails)
  have returned: "fst (embed_text demo_ext (PyStr ''True'') ?s1) = Inr [4]"
    by (simp add: demo_run_defs)
  from same same_module returned result module_fails show ?thesis
    by (simp add: init_state_def)
qed

text \<open>
  Claim C8. \<open>embed_batch([])\<close> hands the empty list to \<open>encode\<close>; when \<open>encode\<close> returns
  the empty result for it, as the embedding library does, \<open>embed_batch\<close> returns the
  empty list, raises nothing and prints nothing.
\<close>

theorem embed_batch_empty:
  "fst (encode env (model self) [] (world s)) = Inr [] \<Longrightarrow>
     fst (BGEEmbedder_embed_batch env self [] s) = Inr []
     \<and> stdout (snd (BGEEmbedder_embed_batch env self [] s)) = stdout s"
  by (cases "encode env (model self) [] (world s)") (simp add: BGEEmbedder_embed_batch_def)

theorem embed_batch_empty_witness:
  "fst (BGEEmbedder_embed_batch demo_ext demo_self [] (init_state 1)) = Inr []
   \<and> stdout (snd (BGEEmbedder_embed_batch demo_ext demo_self [] (init_state 1))) = []"
  using embed_batch_empty [of demo_ext demo_self "init_state 1"]
  by (simp add: demo_simps demo_encode_def init_state_def)

text \<open>
  Claim C5. Assume \<open>encode\<close> is deterministic and pointwise: whatever the state of the
  world, it returns for a list of texts the list of their images under a fixed \<open>f\<close>.
  Then for inputs \<open>t1, ..., tn\<close> that have a string representation, \<open>embed_batch\<close> returns
  exactly \<open>n\<close> vectors, and its \<open>i\<close>-th vector is what \<open>embed_text(ti)\<close> returns, in any state.
\<close>

theorem embed_batch_agrees_with_embed_text:
  assumes pointwise: "\<forall>xs w. fst (encode env (model self) xs w) = Inr (map f xs)"
    and strs: "\<forall>t \<in> set texts. str_py env t = Inr (g t)"
  shows "\<exists>vs. fst (BGEEmbedder_embed_batch env self texts s) = Inr vs
          \<and> length vs = length texts
          \<and> (\<forall>i < length texts. \<forall>s'. fst (BGEEmbedder_embed_text env self (texts ! i) s') = Inr (vs ! i))"
proof -
  have batch: "fst (BGEEmbedder_embed_batch env self texts s) = Inr (map (f \<circ> g) texts)"
  proof -
    obtain r w' where enc: "encode env (model self) (map g texts) (world s) = (r, w')"
      by (cases "encode env (model self) (map g texts) (world s)")
    with pointwise have "r = Inr (map f (map g texts))"
      by (metis fst_conv)
    with enc show ?thesis
      by (simp add: BGEEmbedder_embed_batch_def str_all_map [OF strs] tolist_def)
  qed
  have single: "fst (BGEEmbedder_embed_text env self (texts ! i) s') = Inr (f (g (texts ! i)))"
    if "i < length texts" for i s'
  proof -
    from that strs have coerce: "str_py env (texts ! i) = Inr (g (texts ! i))"
      by simp
    obtain r w' where enc: "encode env (model self) [g (texts ! i)] (world s') = (r, w')"
      by (cases "encode env (model self) [g (texts ! i)] (world s')")
    with pointwise have "r = Inr (map f [g (texts ! i)])"
      by (metis fst_conv)
    with enc coerce show ?thesis
      by (simp add: BGEEmbedder_embed_text_def str_py_def tolist_def)
  qed
  from batch single show ?thesis by simp
qed

theorem embed_batch_agrees_with_embed_text_witness:
  "fst (BGEEmbedder_embed_batch pointwise_ext demo_self [PyStr ''ab'', PyObj PyNone] (init_state 1))
     = Inr [[2], [4]]
   \<and> fst (BGEEmbedder_embed_text pointwise_ext demo_self (PyStr ''ab'') (init_state 1)) = Inr [2]
   \<and> fst (BGEEmbedder_embed_text pointwise_ext demo_self (PyObj PyNone) (init_state 1)) = Inr [4]"
proof -
  let ?texts = "[PyStr ''ab'', PyObj PyNone] :: builtin pyval list"
  let ?g = "\<lambda>t. case t of PyStr x \<Rightarrow> x | PyObj x \<Rightarrow> builtin_str x"
  have pointwise: "\<forall>xs w. fst (encode pointwise_ext (model demo_self) xs w)
      = Inr (map (\<lambda>t. [real (length t)]) xs)"
    by (simp add: pointwise_ext_def)
  have strs: "\<forall>t \<in> set ?texts. str_py pointwise_ext t = Inr (?g t)"
    by (simp add: pointwise_ext_def str_py_def demo_simps)
  from embed_batch_agrees_with_embed_text [OF pointwise strs, of "init_state 1"] obtain vs where
    batch: "fst (BGEEmbedder_embed_batch pointwise_ext demo_self ?texts (init_state 1)) = Inr vs"
    and len: "length vs = 2"
    and each: "\<forall>i < 2. \<forall>s'. fst (BGEEmbedder_embed_text pointwise_ext demo_self (?texts ! i) s')
        = Inr (vs ! i)"
    by auto
  have first: "fst (BGEEmbedder_embed_text pointwise_ext demo_self (PyStr ''ab'') (init_state 1)) = Inr [2]"
    and second: "fst (BGEEmbedder_embed_text pointwise_ext demo_self (PyObj PyNone) (init_state 1)) = Inr [4]"
    by (simp_all add: BGEEmbedder_embed_text_def pointwise_ext_def demo_simps tolist_def)
  from each [rule_format, of 0 "init_state 1"] first have "vs ! 0 = [2]" by simp
  moreover from each [rule_format, of 1 "init_state 1"] second have "vs ! 1 = [4]" by simp
  ultimately have "vs = [[2], [4]]"
    using len by (auto simp: list_eq_iff_nth_eq less_Suc_eq numeral_2_eq_2)
  with batch first second show ?thesis by simp
qed

section \<open>The lazy singleton\<close>

lemma exec_op_initialized:
  assumes "global_model s = Some m"
  shows "global_model (snd (exec_op env c s)) = Some m
    \<and> ctor_calls (snd (exec_op env c s)) = ctor_calls s
    \<and> constructed (snd (exec_op env c s)) = constructed s"
proof (cases c)
  case GetModel
  with assms show ?thesis by (simp add: snd_returning get_model_Some)
next
  case (EmbedText t)
  with assms embed_text_method_frame [of env m t s] show ?thesis
    by (simp add: snd_returning embed_text_initialized)
next
  case (EmbedTextBatch ts)
  with assms embed_batch_method_frame [of env m ts s] show ?thesis
    by (simp add: snd_returning embed_text_batch_initialized)
qed

lemma exec_op_uninitialized:
  assumes "global_model s = None"
  shows "(global_model (snd (exec_op env c s)) = None
            \<and> constructed (snd (exec_op env c s)) = constructed s)
       \<or> (global_model (snd (exec_op env c s)) \<noteq> None
            \<and> constructed (snd (exec_op env c s)) = Suc (constructed s))"
  using assms
proof (cases rule: get_model_cases [of s env])
  case (fails e s')
  then show ?thesis
    by (cases c) (simp_all add: returning_def embed_text_def embed_text_batch_def)
next
  case (loads m s')
  show ?thesis
  proof (cases c)
    case GetModel
    with loads show ?thesis by (simp add: returning_def)
  next
    case (EmbedText t)
    with loads embed_text_method_frame [of env m t s'] show ?thesis
      by (simp add: snd_returning embed_text_def)
  next
    case (EmbedTextBatch ts)
    with loads embed_batch_method_frame [of env m ts s'] show ?thesis
      by (simp add: snd_returning embed_text_batch_def)
  qed
qed

lemma exec_op_inv: "singleton_inv s \<Longrightarrow> singleton_inv (snd (exec_op env c s))"
proof (cases "global_model s")
  case None
  assume "singleton_inv s"
  with None exec_op_uninitialized [OF None, of env c] show ?thesis
    by (auto simp: singleton_inv_def)
next
  case (Some m)
  assume "singleton_inv s"
  with Some exec_op_initialized [OF Some, of env c] show ?thesis
    by (simp add: singleton_inv_def)
qed

lemma exec_op_returns_cached:
  assumes "exec_op env c s = (Inr (RModel m), s')"
  shows "global_model s' = Some m"
proof (cases c)
  case GetModel
  show ?thesis
  proof (cases "global_model s")
    case None
    then show ?thesis
      using assms GetModel
      by (cases rule: get_model_cases [of s env]) (auto simp: returning_def)
  next
    case (Some m')
    with assms GetModel show ?thesis by (auto simp: returning_def get_model_Some)
  qed
next
  case (EmbedText t)
  with assms show ?thesis by (auto simp: returning_def split: prod.splits sum.splits)
next
  case (EmbedTextBatch ts)
  with assms show ?thesis by (auto simp: returning_def split: prod.splits sum.splits)
qed

lemma run_initialized:
  "global_model s = Some m \<Longrightarrow>
     global_model (snd (run env cs s)) = Some m
     \<and> ctor_calls (snd (run env cs s)) = ctor_calls s
     \<and> constructed (snd (run env cs s)) = constructed s"
proof (induction cs arbitrary: s)
  case Nil
  then show ?case by simp
next
  case (Cons c cs)
  from exec_op_initialized [OF Cons.prems, of env c] Cons.IH [of "snd (exec_op env c s)"]
  show ?case by (simp add: split_beta Let_def)
qed

lemma run_inv: "singleton_inv s \<Longrightarrow> singleton_inv (snd (run env cs s))"
proof (induction cs arbitrary: s)
  case Nil
  then show ?case by simp
next
  case (Cons c cs)
  from Cons.IH [OF exec_op_inv [OF Cons.prems, of env c]] show ?case
    by (simp add: split_beta Let_def)
qed

lemma run_returns_cached:
  "Inr (RModel m) \<in> set (fst (run env cs s)) \<Longrightarrow> global_model (snd (run env cs s)) = Some m"
proof (induction cs arbitrary: s)
  case Nil
  then show ?case by simp
next
  case (Cons c cs)
  let ?s1 = "snd (exec_op env c s)"
  from Cons.prems have "fst (exec_op env c s) = Inr (RModel m)
      \<or> Inr (RModel m) \<in> set (fst (run env cs ?s1))"
    by (auto simp: split_beta Let_def)
  then show ?case
  proof
    assume "fst (exec_op env c s) = Inr (RModel m)"
    then have "exec_op env c s = (Inr (RModel m), ?s1)"
      by (simp add: prod_eq_iff)
    then have "global_model ?s1 = Some m"
      by (rule exec_op_returns_cached)
    from run_initialized [OF this, of env cs] show ?thesis
      by (simp add: split_beta Let_def)
  next
    assume "Inr (RModel m) \<in> set (fst (run env cs ?s1))"
    from Cons.IH [OF this] show ?thesis
      by (simp add: split_beta Let_def)
  qed
qed

lemma run_append:
  "run env (cs @ ds) s =
     (fst (run env cs s) @ fst (run env ds (snd (run env cs s))),
      snd (run env ds (snd (run env cs s))))"
  by (induction cs arbitrary: s) (simp_all add: split_beta Let_def)

lemma init_state_inv: "singleton_inv (init_state w)"
  by (simp add: singleton_inv_def init_state_def)

text \<open>
  Claim C4. Start from the state at import and make any sequence of calls of
  \<open>get_model\<close>, \<open>embed_text\<close> and \<open>embed_text_batch\<close>. At the end the external model has been
  built once if \<open>_model\<close> is set and never otherwise, so at most one handle exists;
  every \<open>get_model\<close> call of the sequence that returned has returned the handle held
  in \<open>_model\<close> at the end, so all of them returned the same instance; and once
  \<open>_model\<close> is set after some prefix of the sequence, it holds the same handle at the
  end and the loader has not been called again.
\<close>

theorem get_model_singleton:
  assumes "run env cs (init_state w) = (rs, s')"
  shows "constructed s' = (if global_model s' = None then 0 else 1)
    \<and> (\<forall>m. Inr (RModel m) \<in> set rs \<longrightarrow> global_model s' = Some m)
    \<and> (\<forall>k m. global_model (snd (run env (take k cs) (init_state w))) = Some m \<longrightarrow>
          global_model s' = Some m
          \<and> ctor_calls s' = ctor_calls (snd (run env (take k cs) (init_state w))))"
proof -
  from run_inv [OF init_state_inv, of env cs w] assms
  have one: "constructed s' = (if global_model s' = None then 0 else 1)"
    by (simp add: singleton_inv_def)
  have same: "global_model s' = Some m" if "Inr (RModel m) \<in> set rs" for m
    using run_returns_cached [of m env cs "init_state w"] that assms by simp
  have kept: "global_model s' = Some m
      \<and> ctor_calls s' = ctor_calls (snd (run env (take k cs) (init_state w)))"
    if "global_model (snd (run env (take k cs) (init_state w))) = Some m" for k m
  proof -
    have "run env cs (init_state w) = run env (take k cs @ drop k cs) (init_state w)"
      by simp
    also have "snd \<dots> = snd (run env (drop k cs) (snd (run env (take k cs) (init_state w))))"
      by (simp only: run_append snd_conv)
    finally have "s' = snd (run env (drop k cs) (snd (run env (take k cs) (init_state w))))"
      using assms by simp
    with run_initialized [OF that, of env "drop k cs"] show ?thesis by simp
  qed
  from one same kept show ?thesis by blast
qed

theorem get_model_singleton_witness:
  "run demo_ext [GetModel, GetModel, EmbedText (PyObj PyNone), GetModel] (init_state 0) =
     ([Inl OSError_missing, Inr (RModel \<lparr>oid = 1, model = 1\<rparr>), Inr (RVec [4]),
       Inr (RModel \<lparr>oid = 1, model = 1\<rparr>)],
      \<lparr>world = 2,
       stdout = [''Initializing BGE model: BAAI/bge-m3'',
                 ''Error initializing model: BAAI/bge-m3 does not appear to have model weights'',
                 ''Initializing BGE model: BAAI/bge-m3'', ''Model initialized successfully''],
       next_oid = 2, global_model = Some \<lparr>oid = 1, model = 1\<rparr>, ctor_calls = 2,
       constructed = 1, encode_calls = 1\<rparr>)
   \<and> global_model (snd (run demo_ext (take 2 [GetModel, GetModel, EmbedText (PyObj PyNone), GetModel])
        (init_state 0))) = Some \<lparr>oid = 1, model = 1\<rparr>
   \<and> ctor_calls (snd (run demo_ext (take 2 [GetModel, GetModel, EmbedText (PyObj PyNone), GetModel])
        (init_state 0))) = 2"
proof -
  let ?cs = "[GetModel, GetModel, EmbedText (PyObj PyNone), GetModel] :: builtin op list"
  let ?s' = "\<lparr>world = 2,
       stdout = [''Initializing BGE model: BAAI/bge-m3'',
                 ''Error initializing model: BAAI/bge-m3 does not appear to have model weights'',
                 ''Initializing BGE model: BAAI/bge-m3'', ''Model initialized successfully''],
       next_oid = 2, global_model = Some \<lparr>oid = 1, model = 1\<rparr>, ctor_calls = 2,
       constructed = 1, encode_calls = 1\<rparr> :: (nat, nat) pstate"
  have whole: "run demo_ext ?cs (init_state 0) =
     ([Inl OSError_missing, Inr (RModel \<lparr>oid = 1, model = 1\<rparr>), Inr (RVec [4]),
       Inr (RModel \<lparr>oid = 1, model = 1\<rparr>)], ?s')"
    by (simp add: demo_run_defs)
  have prefix: "global_model (snd (run demo_ext (take 2 ?cs) (init_state 0)))
      = Some \<lparr>oid = 1, model = 1\<rparr>"
    by (simp add: demo_run_defs)
  from get_model_singleton [OF whole] prefix
  have "ctor_calls ?s' = ctor_calls (snd (run demo_ext (take 2 ?cs) (init_state 0)))"
    by blast
  with whole prefix show ?thesis by simp
qed

text \<open>
  Claim C7. When \<open>_model\<close> is \<open>None\<close> and the external construction raises \<open>e\<close>,
  \<open>get_model()\<close> raises \<open>e\<close>, \<open>_model\<close> is still \<open>None\<close> afterwards and no model counts as built.
\<close>

theorem get_model_failure_caches_nothing:
  "global_model s = None \<Longrightarrow> fst (SentenceTransformer env ''BAAI/bge-m3'' (world s)) = Inl e \<Longrightarrow>
     fst (get_model env s) = Inl e
     \<and> global_model (snd (get_model env s)) = None
     \<and> constructed (snd (get_model env s)) = constructed s"
  by (cases "SentenceTransformer env ''BAAI/bge-m3'' (world s)") (simp add: get_model_None_Inl)

theorem get_model_failure_caches_nothing_witness:
  "fst (get_model demo_ext (init_state 0)) = Inl OSError_missing
   \<and> global_model (snd (get_model demo_ext (init_state 0))) = None
   \<and> constructed (snd (get_model demo_ext (init_state 0))) = 0"
  using get_model_failure_caches_nothing [of "init_state 0" demo_ext OSError_missing]
  by (simp add: demo_simps demo_SentenceTransformer_def init_state_def)

text \<open>
  Claim C9. When \<open>_model\<close> holds a handle, a call of \<open>embed_text\<close> or of
  \<open>embed_text_batch\<close> leaves \<open>_model\<close> holding that same handle, whether the call returns
  or raises, and does not call the loader.
\<close>

theorem embedding_keeps_handle:
  "global_model s = Some m \<Longrightarrow>
     global_model (snd (embed_text env t s)) = Some m
     \<and> global_model (snd (embed_text_batch env ts s)) = Some m
     \<and> ctor_calls (snd (embed_text env t s)) = ctor_calls s
     \<and> ctor_calls (snd (embed_text_batch env ts s)) = ctor_calls s"
  using embed_text_method_frame [of env m t s] embed_batch_method_frame [of env m ts s]
  by (simp add: embed_text_initialized embed_text_batch_initialized)

theorem embedding_keeps_handle_witness:
  "global_model (snd (get_model demo_ext (init_state 1))) = Some demo_self
   \<and> global_model (snd (embed_text demo_ext (PyStr ''boom'') (snd (get_model demo_ext (init_state 1)))))
       = Some demo_self
   \<and> global_model (snd (embed_text_batch demo_ext [PyStr ''ab'', PyObj PyNone]
        (snd (get_model demo_ext (init_state 1))))) = Some demo_self"
proof -
  have loaded: "global_model (snd (get_model demo_ext (init_state 1))) = Some demo_self"
    by (simp add: demo_run_defs)
  from embedding_keeps_handle [OF loaded, of demo_ext "PyStr ''boom''" "[PyStr ''ab'', PyObj PyNone]"] loaded
  show ?thesis by simp
qed

text \<open>
  Claim C10. After a call of \<open>get_model()\<close> that failed in the construction, \<open>_model\<close>
  is still \<open>None\<close>. From then on, after any further calls, as long as \<open>_model\<close> is
  still \<open>None\<close> the next \<open>get_model()\<close> calls the loader again; and when the loader
  then returns a model, that call of \<open>get_model()\<close> returns a new instance holding it and
  caches it. A failure is not remembered.
\<close>

theorem failed_construction_retried:
  assumes "global_model s = None"
    and "fst (SentenceTransformer env ''BAAI/bge-m3'' (world s)) = Inl e"
  shows "global_model (snd (get_model env s)) = None
    \<and> (\<forall>cs. global_model (snd (run env cs (snd (get_model env s)))) = None \<longrightarrow>
         ctor_calls (snd (get_model env (snd (run env cs (snd (get_model env s))))))
           = Suc (ctor_calls (snd (run env cs (snd (get_model env s)))))
         \<and> (\<forall>h w'. SentenceTransformer env ''BAAI/bge-m3''
                      (world (snd (run env cs (snd (get_model env s))))) = (Inr h, w') \<longrightarrow>
              fst (get_model env (snd (run env cs (snd (get_model env s)))))
                = Inr \<lparr>oid = next_oid (snd (run env cs (snd (get_model env s)))), model = h\<rparr>
              \<and> global_model (snd (get_model env (snd (run env cs (snd (get_model env s))))))
                = Some \<lparr>oid = next_oid (snd (run env cs (snd (get_model env s)))), model = h\<rparr>))"
proof -
  have again: "ctor_calls (snd (get_model env s2)) = Suc (ctor_calls s2)
      \<and> (\<forall>h w'. SentenceTransformer env ''BAAI/bge-m3'' (world s2) = (Inr h, w') \<longrightarrow>
            fst (get_model env s2) = Inr \<lparr>oid = next_oid s2, model = h\<rparr>
            \<and> global_model (snd (get_model env s2)) = Some \<lparr>oid = next_oid s2, model = h\<rparr>)"
    if none: "global_model s2 = None" for s2
  proof -
    have "ctor_calls (snd (get_model env s2)) = Suc (ctor_calls s2)"
      using none by (cases rule: get_model_cases [of s2 env]) simp_all
    then show ?thesis
      using none by (simp add: get_model_None_Inr)
  qed
  from assms have "global_model (snd (get_model env s)) = None"
    by (cases "SentenceTransformer env ''BAAI/bge-m3'' (world s)") (simp add: get_model_None_Inl)
  with again show ?thesis by blast
qed

theorem failed_construction_retried_witness:
  "fst (get_model demo_ext (init_state 0)) = Inl OSError_missing
   \<and> global_model (snd (get_model demo_ext (init_state 0))) = None
   \<and> ctor_calls (snd (get_model demo_ext (init_state 0))) = 1
   \<and> ctor_calls (snd (get_model demo_ext (snd (get_model demo_ext (init_state 0))))) = 2
   \<and> fst (get_model demo_ext (snd (get_model demo_ext (init_state 0)))) = Inr \<lparr>oid = 1, model = 1\<rparr>
   \<and> global_model (snd (get_model demo_ext (snd (get_model demo_ext (init_state 0)))))
       = Some \<lparr>oid = 1, model = 1\<rparr>"
proof -
  let ?s1 = "snd (get_model demo_ext (init_state 0))"
  have none: "global_model (init_state 0 :: (nat, nat) pstate) = None"
    by (simp add: init_state_def)
  have fails: "fst (SentenceTransformer demo_ext ''BAAI/bge-m3'' (world (init_state 0 :: (nat, nat) pstate)))
      = Inl OSError_missing"
    by (simp add: demo_simps demo_SentenceTransformer_def init_state_def)
  have first: "fst (get_model demo_ext (init_state 0)) = Inl OSError_missing"
      "ctor_calls ?s1 = 1" "next_oid ?s1 = 1" "world ?s1 = 1"
    by (simp_all add: demo_run_defs)
  have loads: "SentenceTransformer demo_ext ''BAAI/bge-m3'' (world ?s1) = (Inr 1, 2)"
    by (simp add: first demo_simps demo_SentenceTransformer_def)
  from failed_construction_retried [OF none fails] have still: "global_model ?s1 = None"
    by blast
  from failed_construction_retried [OF none fails, THEN conjunct2, rule_format, of "[]"] still loads first
  have "ctor_calls (snd (get_model demo_ext ?s1)) = 2
      \<and> fst (get_model demo_ext ?s1) = Inr \<lparr>oid = 1, model = 1\<rparr>
      \<and> global_model (snd (get_model demo_ext ?s1)) = Some \<lparr>oid = 1, model = 1\<rparr>"
    by simp
  with still first show ?thesis by simp
qed

end
